theory Spec2Isabelle
  imports Main
begin

section \<open>JavaScript values\<close>

text \<open>
  The widget at the bottom of \<^verbatim>\<open>adshare-modal.js\<close> handles configuration values of
  several dynamic types. The primitive values that reach it are modelled here; numbers
  are restricted to integers (all numeric defaults are integers, and time stamps are
  integral milliseconds). \<open>JFun\<close> stands for an opaque function value such as an
  \<^verbatim>\<open>afterClose\<close> callback. Plain objects occur only as property tables, which are
  maps from property names to values.
\<close>

datatype jsval =
    JUndefined
  | JNull
  | JBool bool
  | JNum int
  | JStr string
  | JFun nat

type_synonym obj = "string \<rightharpoonup> jsval"

text \<open>Reading a property that an object does not have yields \<^verbatim>\<open>undefined\<close>.\<close>

definition get_prop :: "obj \<Rightarrow> string \<Rightarrow> jsval" where
  "get_prop m k = (case m k of None \<Rightarrow> JUndefined | Some v \<Rightarrow> v)"

text \<open>Truthiness, as used by \<^verbatim>\<open>if\<close>, \<^verbatim>\<open>!\<close> and \<^verbatim>\<open>||\<close>.\<close>

fun truthy :: "jsval \<Rightarrow> bool" where
  "truthy JUndefined = False"
| "truthy JNull = False"
| "truthy (JBool b) = b"
| "truthy (JNum n) = (n \<noteq> 0)"
| "truthy (JStr s) = (s \<noteq> [])"
| "truthy (JFun f) = True"

text \<open>The operator \<^verbatim>\<open>a || b\<close>: the left operand when it is truthy, else the right one.\<close>

definition js_or :: "jsval \<Rightarrow> jsval \<Rightarrow> jsval" where
  "js_or a b = (if truthy a then a else b)"

text \<open>
  \<^verbatim>\<open>v == 'lit'\<close> for the string literals the widget compares against
  (\<^verbatim>\<open>'de'\<close>, \<^verbatim>\<open>'native'\<close>, \<^verbatim>\<open>'smart'\<close>, ...). None of them is a numeric literal, so on
  primitive values the loose comparison holds exactly for the equal string.
\<close>

definition js_eq_str :: "jsval \<Rightarrow> string \<Rightarrow> bool" where
  "js_eq_str v lit = (v = JStr lit)"

text \<open>\<^verbatim>\<open>typeof v == "string"\<close>.\<close>

fun is_string :: "jsval \<Rightarrow> bool" where
  "is_string (JStr s) = True"
| "is_string v = False"

subsection \<open>Numeric conversion\<close>

text \<open>
  The relational operators and the subtraction in \<^verbatim>\<open>getCountdownTimeLeft\<close> convert
  their operands to numbers. \<open>None\<close> stands for \<^verbatim>\<open>NaN\<close>. Numbers being integers here,
  a string converts when it is empty (to 0) or an optionally signed run of decimal
  digits. Strings in other numeric notations (fractions, exponents, hexadecimal
  digits, surrounding white space) are outside this model; they are treated like
  strings that are not numeric.
\<close>

definition digit_val :: "char \<Rightarrow> nat option" where
  "digit_val = map_of
     [(CHR ''0'', 0), (CHR ''1'', 1), (CHR ''2'', 2), (CHR ''3'', 3), (CHR ''4'', 4),
      (CHR ''5'', 5), (CHR ''6'', 6), (CHR ''7'', 7), (CHR ''8'', 8), (CHR ''9'', 9)]"

fun digits_val :: "nat \<Rightarrow> string \<Rightarrow> nat option" where
  "digits_val acc [] = Some acc"
| "digits_val acc (c # cs) =
     (case digit_val c of None \<Rightarrow> None | Some d \<Rightarrow> digits_val (10 * acc + d) cs)"

fun string_to_number :: "string \<Rightarrow> int option" where
  "string_to_number [] = Some 0"
| "string_to_number (c # cs) =
     (if c = CHR ''-'' \<and> cs \<noteq> [] then map_option (\<lambda>n. - int n) (digits_val 0 cs)
      else if c = CHR ''+'' \<and> cs \<noteq> [] then map_option int (digits_val 0 cs)
      else map_option int (digits_val 0 (c # cs)))"

fun to_number :: "jsval \<Rightarrow> int option" where
  "to_number JUndefined = None"
| "to_number JNull = Some 0"
| "to_number (JBool b) = Some (if b then 1 else 0)"
| "to_number (JNum n) = Some n"
| "to_number (JStr s) = string_to_number s"
| "to_number (JFun f) = None"

text \<open>\<^verbatim>\<open>v <= 0\<close> and \<^verbatim>\<open>v > 0\<close>; both are false for \<^verbatim>\<open>NaN\<close>.\<close>

definition js_le0 :: "jsval \<Rightarrow> bool" where
  "js_le0 v = (case to_number v of None \<Rightarrow> False | Some n \<Rightarrow> n \<le> 0)"

definition js_gt0 :: "jsval \<Rightarrow> bool" where
  "js_gt0 v = (case to_number v of None \<Rightarrow> False | Some n \<Rightarrow> 0 < n)"

section \<open>State of the page and of the widget\<close>

text \<open>
  \<^verbatim>\<open>window.sessionStorage\<close> is missing, or reading it throws (storage disabled), or it
  is a table of strings.
\<close>

datatype storage =
    StorageAbsent
  | StorageThrows
  | Storage "string \<rightharpoonup> string"

text \<open>
  The content variants. The markup is not transcribed: a host's content is identified
  by the builder that produced it, \<open>Banner\<close> for \<^verbatim>\<open>getBannerElementHTML()\<close>,
  \<open>Taboola\<close> for \<^verbatim>\<open>getTaboolaIframeHTML()\<close>, \<open>Video\<close> for \<^verbatim>\<open>getVideoElementHTML()\<close>,
  \<open>VideoBanner\<close> for \<^verbatim>\<open>getVideoBannerHTML()\<close>, \<open>ContentAd\<close> for
  \<^verbatim>\<open>getContentAdIframeHTML()\<close>, \<open>ContentAdV2\<close> for \<^verbatim>\<open>getContentAdIframeHTMLV2()\<close>,
  \<open>ContentAdFunnel\<close> for \<^verbatim>\<open>getContentAdFunnelIframeHtml()\<close>, \<open>ContentAdFunnel404\<close> for
  \<^verbatim>\<open>getContentAdFunnel404IframeHtml()\<close>, \<open>ContentIframe\<close> for
  \<^verbatim>\<open>getContentIframeHtml()\<close> and \<open>Content404Iframe\<close> for \<^verbatim>\<open>getContent404IframeHtml()\<close>.
\<close>

datatype variant =
    Banner
  | Taboola
  | Video
  | VideoBanner
  | ContentAd
  | ContentAdV2
  | ContentAdFunnel
  | ContentAdFunnel404
  | ContentIframe
  | Content404Iframe

text \<open>
  The handle returned by \<^verbatim>\<open>picoModal\<close>: \<open>html\<close> is what its wrapper
  \<^verbatim>\<open>#adshare-modal-content\<close> holds, and \<open>inDocument\<close> says whether its
  \<^verbatim>\<open>.pico-content\<close> element is in the document (\<^verbatim>\<open>show()\<close> builds it as the last
  child of \<^verbatim>\<open>body\<close>, the \<^verbatim>\<open>beforeClose\<close> hook removes it).
\<close>

datatype modal_handle = Modal (html: variant) (inDocument: bool)

text \<open>
  Where the close button \<^verbatim>\<open>.pico-close\<close> of a box is. Both constructors put the
  button after the content and before the \<^verbatim>\<open></div>\<close> that closes the first child, so
  the button is parsed into the first child (\<open>Inside\<close>), unless the content carries an
  unmatched \<^verbatim>\<open></div>\<close> of its own that closes the first child early, as the markup of
  \<^verbatim>\<open>getContentIframeHtml\<close> and \<^verbatim>\<open>getContent404IframeHtml\<close> does (\<open>Beside\<close>). A button
  inside the first child is lost (\<open>Gone\<close>) when \<^verbatim>\<open>innerHTML\<close> of that child is
  replaced.
\<close>

datatype close_button = Inside | Beside | Gone

definition button_of :: "variant \<Rightarrow> close_button" where
  "button_of v = (if v = ContentIframe \<or> v = Content404Iframe then Beside else Inside)"

definition button_after_update :: "close_button \<Rightarrow> close_button" where
  "button_after_update b = (if b = Beside then Beside else Gone)"

text \<open>
  The element \<^verbatim>\<open>#fakeContentBoxContainer\<close>: \<open>is404\<close> tells \<^verbatim>\<open>create404Container\<close>
  from \<^verbatim>\<open>createContainer\<close> (only the latter gives the first child the id
  \<^verbatim>\<open>adshare-modal-content\<close>; the former's id attribute is malformed), \<open>attached\<close>
  whether the element still has a parent node, \<open>boxHtml\<close> what its first child holds,
  \<open>closeButton\<close> where its close button is.
\<close>

datatype box = Box (is404: bool) (attached: bool) (boxHtml: variant) (closeButton: close_button)

text \<open>The callbacks that the widget hands to \<^verbatim>\<open>setTimeout\<close>.\<close>

datatype callback =
    CountdownTimer
  | WriteBannerIFrameHtml
  | WriteContentAdIframeHtml
  | WriteTaloobaIFrameHtml
  | WriteTalooba2ndCallIFrameHtml
  | SetupVideoJsPlayer
  | ResetHasEndedFired
  | DisplayAd
  | VideoAdFallback
  | SmartSwitch
  | Mix1Switch
  | Mix2Switch

datatype error = TypeError

text \<open>
  The first group of fields is the browser: session storage, the page global
  \<^verbatim>\<open>window.funnelmecfg\<close>, \<^verbatim>\<open>navigator.language || navigator.userLanguage\<close>, the
  clock read by \<^verbatim>\<open>new Date().getTime()\<close>, and what the host page contains:
  \<open>page_marker\<close> is the result of
  \<^verbatim>\<open>document.getElementById('content').children[2].classList.contains('aC')\<close>
  (\<open>None\<close> when that lookup throws), \<open>page_contentBox\<close> and \<open>page_download\<close> say
  whether \<^verbatim>\<open>#contentBoxContainer\<close> and \<^verbatim>\<open>#download\<close> exist, \<open>page_aC\<close> counts the
  elements of class \<^verbatim>\<open>aC\<close>. The second group is the module-level variables of the
  widget, under their own names (without \<^verbatim>\<open>closingOfPopupScheduled\<close>,
  \<^verbatim>\<open>anotherAdScheduled\<close> and \<^verbatim>\<open>doAfterContentEnded\<close>, which only functions that are
  never called touch); \<open>moduleOptions\<close> holds the scalar properties of the
  object of that name and \<open>playerOptions\<close>, \<open>ima\<close> its two nested objects (\<open>None\<close>
  while \<^verbatim>\<open>moduleOptions\<close> is still \<^verbatim>\<open>{}\<close>). \<open>timers\<close> lists the pending
  \<^verbatim>\<open>setTimeout\<close> calls with their delays, oldest first. \<open>created\<close> and \<open>disposed\<close>
  count the players made by \<^verbatim>\<open>videojs(videoElement, ...)\<close> in
  \<^verbatim>\<open>setupVideoJsPlayer\<close> and the players disposed by \<^verbatim>\<open>destroyVideoJsPlayer\<close>.
\<close>

record state =
  storage :: storage
  funnelmecfg :: "obj option"
  nav_language :: string
  clock :: int
  page_marker :: "bool option"
  page_contentBox :: bool
  page_download :: bool
  page_aC :: nat
  options :: "obj option"
  moduleOptions :: obj
  playerOptions :: "obj option"
  ima :: "obj option"
  error404 :: bool
  player :: bool
  modal :: "modal_handle option"
  container :: "box option"
  playerInitialized :: bool
  adsharecountdownstart :: "int option"
  startedVideoAd :: bool
  displaysFallbackAd :: bool
  hasEndedFired :: bool
  useFallback :: bool
  timers :: "(jsval \<times> callback) list"
  created :: nat
  disposed :: nat

text \<open>A call either returns or throws; in both cases the state it leaves is kept.\<close>

datatype outcome = Normal state | Throw error state

fun state_of :: "outcome \<Rightarrow> state" where
  "state_of (Normal s) = s"
| "state_of (Throw e s) = s"

fun and_then :: "outcome \<Rightarrow> (state \<Rightarrow> outcome) \<Rightarrow> outcome" where
  "and_then (Normal s) f = f s"
| "and_then (Throw e s) f = Throw e s"

definition setTimeout :: "callback \<Rightarrow> jsval \<Rightarrow> state \<Rightarrow> state" where
  "setTimeout cb delay s = s\<lparr>timers := timers s @ [(delay, cb)]\<rparr>"

section \<open>Configuration resolver\<close>

definition defaultOptions :: obj where
  "defaultOptions = map_of
     [(''locale'', JNull),
      (''afterClose'', JNull),
      (''closeModalAutomatically'', JBool False),
      (''countdownDuration'', JNum 30),
      (''timeout'', JNum 0),
      (''videoAdTimeout'', JNum 7000),
      (''bannerContentUnitId'', JNum 3510730),
      (''content'', JStr ''smart''),
      (''header'', JStr ''default''),
      (''integration'', JStr ''modal''),
      (''position'', JStr ''freedownload''),
      (''assetPath'', JStr ''./lib/''),
      (''iframeUrl'', JStr ''http://www.neuestens.de/recommendations/videoembed.html''),
      (''adTagUrl'', JStr ''http://adfarm1.adition.com/banner?sid=3508808&wpt=X''),
      (''fallBackAdTagUrl'', JStr ''http://adfarm1.adition.com/banner?sid=3552599&wpt=X''),
      (''premiumButtonUrl'', JStr ''http://uploaded.net/register''),
      (''debug'', JBool False),
      (''download'', JBool True),
      (''e404'', JBool False)]"

definition defaultPlayerOptions :: obj where
  "defaultPlayerOptions = map_of [(''videoPath'', JStr ''./vids/'')]"

definition defaultIma :: obj where
  "defaultIma = map_of
     [(''id'', JStr ''adshare-videoad''),
      (''adTagUrl'', JStr ''http://adfarm1.adition.com/banner?sid=3508808&wpt=X''),
      (''debug'', JBool False),
      (''locale'', JStr ''en''),
      (''vpaidMode'', JStr ''insecure'')]"

text \<open>
  \<^verbatim>\<open>getSessionStorageOverride\<close>: the stored string, \<^verbatim>\<open>null\<close> for a key that is not
  stored or when reading throws, and \<^verbatim>\<open>undefined\<close> (the function falls off its end)
  when there is no session storage.
\<close>

definition getSessionStorageOverride :: "state \<Rightarrow> string \<Rightarrow> jsval" where
  "getSessionStorageOverride s attributeName =
     (case storage s of
        StorageAbsent \<Rightarrow> JUndefined
      | StorageThrows \<Rightarrow> JNull
      | Storage items \<Rightarrow> (case items attributeName of None \<Rightarrow> JNull | Some v \<Rightarrow> JStr v))"

text \<open>\<^verbatim>\<open>x || {}\<close> for an object that may be undefined.\<close>

definition or_empty :: "obj option \<Rightarrow> obj" where
  "or_empty m = (case m of None \<Rightarrow> Map.empty | Some t \<Rightarrow> t)"

text \<open>
  \<^verbatim>\<open>determineOptionValue\<close> first replaces an undefined \<^verbatim>\<open>options\<close> and an undefined
  \<^verbatim>\<open>window.funnelmecfg\<close> by \<^verbatim>\<open>{}\<close>, then chains the four sources with \<^verbatim>\<open>||\<close>.
\<close>

definition determineOptionValue :: "string \<Rightarrow> state \<Rightarrow> jsval \<times> state" where
  "determineOptionValue name s =
     (let s1 = s\<lparr>options := Some (or_empty (options s))\<rparr>;
          s2 = s1\<lparr>funnelmecfg := Some (or_empty (funnelmecfg s1))\<rparr>
      in (js_or (js_or (js_or (getSessionStorageOverride s2 name)
                              (get_prop (or_empty (funnelmecfg s2)) name))
                       (get_prop (or_empty (options s2)) name))
                (get_prop (moduleOptions s2) name),
          s2))"

text \<open>\<^verbatim>\<open>moduleOptions.name = determineOptionValue('name')\<close>.\<close>

definition assignOption :: "string \<Rightarrow> state \<Rightarrow> state" where
  "assignOption name s =
     (let (v, s1) = determineOptionValue name s
      in s1\<lparr>moduleOptions := (moduleOptions s1)(name \<mapsto> v)\<rparr>)"

text \<open>\<^verbatim>\<open>moduleOptions.playerOptions.videoPath = determineOptionValue('videoPath')\<close>.\<close>

definition assignVideoPath :: "state \<Rightarrow> state" where
  "assignVideoPath s =
     (let (v, s1) = determineOptionValue ''videoPath'' s
      in s1\<lparr>playerOptions := Some ((or_empty (playerOptions s1))(''videoPath'' \<mapsto> v))\<rparr>)"

definition set_ima :: "string \<Rightarrow> jsval \<Rightarrow> state \<Rightarrow> state" where
  "set_ima k v s = s\<lparr>ima := Some ((or_empty (ima s))(k \<mapsto> v))\<rparr>"

definition set_option :: "string \<Rightarrow> jsval \<Rightarrow> state \<Rightarrow> state" where
  "set_option k v s = s\<lparr>moduleOptions := (moduleOptions s)(k \<mapsto> v)\<rparr>"

text \<open>
  The statements of \<^verbatim>\<open>applyOptions\<close> after the twenty assignments: the guard on
  \<^verbatim>\<open>countdownDuration\<close>, the three conversions of strings to booleans
  (\<^verbatim>\<open>v == "true" ? true : false\<close>), the copies into \<^verbatim>\<open>moduleOptions.ima\<close> and the
  deprecated \<^verbatim>\<open>vastEndPoint\<close>.
\<close>

definition postprocess :: "state \<Rightarrow> state" where
  "postprocess s =
     (let s1 = (if js_le0 (get_prop (moduleOptions s) ''countdownDuration'')
                then set_option ''closeModalAutomatically'' (JBool False) s else s);
          s2 = (if is_string (get_prop (moduleOptions s1) ''closeModalAutomatically'')
                then set_option ''closeModalAutomatically''
                       (JBool (get_prop (moduleOptions s1) ''closeModalAutomatically'' = JStr ''true'')) s1
                else s1);
          s3 = (if is_string (get_prop (or_empty (ima s2)) ''debug'')
                then set_ima ''debug''
                       (JBool (get_prop (or_empty (ima s2)) ''debug'' = JStr ''true'')) s2
                else s2);
          s4 = (if is_string (get_prop (moduleOptions s3) ''download'')
                then set_option ''download''
                       (JBool (get_prop (moduleOptions s3) ''download'' = JStr ''true'')) s3
                else s3);
          s5 = set_ima ''debug'' (get_prop (moduleOptions s4) ''debug'') s4;
          s6 = set_ima ''adTagUrl'' (get_prop (moduleOptions s5) ''adTagUrl'') s5;
          s7 = set_ima ''debug'' (get_prop (moduleOptions s6) ''debug'') s6
      in set_ima ''adTagUrl''
           (js_or (js_or (getSessionStorageOverride s7 ''vastEndPoint'')
                         (get_prop (or_empty (options s7)) ''vastEndPoint''))
                  (get_prop (or_empty (ima s7)) ''adTagUrl'')) s7)"

text \<open>
  \<^verbatim>\<open>applyOptions(opts)\<close>. \<open>None\<close> is a call without options, the only falsy argument
  the entry point passes on. The logging under \<^verbatim>\<open>debug\<close> leaves the state alone.
\<close>

definition applyOptions :: "obj option \<Rightarrow> state \<Rightarrow> state" where
  "applyOptions opts s =
     (let s0 = s\<lparr>options := opts, moduleOptions := defaultOptions,
                 playerOptions := Some defaultPlayerOptions, ima := Some defaultIma\<rparr>
      in if opts = None then s0
         else postprocess
               (fold assignOption
                  [''bannerContentUnitId'', ''afterClose'', ''closeModalAutomatically'',
                   ''iframeUrl'', ''timeout'', ''videoAdTimeout'', ''assetPath'', ''download'',
                   ''locale'', ''debug'', ''e404'']
                  (assignVideoPath
                     (fold assignOption
                        [''adTagUrl'', ''fallBackAdTagUrl'', ''position'', ''integration'',
                         ''header'', ''content'', ''countdownDuration'', ''premiumButtonUrl'']
                        s0))))"

section \<open>Localization\<close>




definition getBrowserLanguage :: "state \<Rightarrow> string" where
  "getBrowserLanguage s =
     (let lang = nav_language s
      in if length lang > 2 then take 2 lang else lang)"





section \<open>What the document contains\<close>

text \<open>
  The variants currently in the document: the content of the modal while its element is
  in the document, and of the box while it is attached.
\<close>

definition doc_contents :: "state \<Rightarrow> variant list" where
  "doc_contents s =
     (case container s of
        Some (Box k True v b) \<Rightarrow> [v]
      | _ \<Rightarrow> [])
     @ (case modal s of
          Some (Modal v True) \<Rightarrow> [v]
        | _ \<Rightarrow> [])"

text \<open>
  \<^verbatim>\<open>document.getElementById('adshare-countdown')\<close> finds an element exactly when a
  banner (\<^verbatim>\<open>getBannerElementHTML\<close>) is in the document.
\<close>

definition has_adshare_countdown :: "state \<Rightarrow> bool" where
  "has_adshare_countdown s = (Banner \<in> set (doc_contents s))"

text \<open>
  \<^verbatim>\<open>document.querySelector('.pico-close')\<close>: the modal library appends the close
  button to \<^verbatim>\<open>.pico-content\<close>, beside the wrapper; a box has one while it is attached
  and its button has not been lost.
\<close>

definition has_pico_close :: "state \<Rightarrow> bool" where
  "has_pico_close s =
     ((case container s of
         Some (Box k True v b) \<Rightarrow> b \<noteq> Gone
       | _ \<Rightarrow> False)
      \<or> (case modal s of
            Some (Modal v True) \<Rightarrow> True
          | _ \<Rightarrow> False))"

text \<open>\<^verbatim>\<open>document.getElementById('adshare-banner-iframe')\<close>: every variant but the two
  video ones holds that iframe.\<close>

definition has_banner_iframe :: "state \<Rightarrow> bool" where
  "has_banner_iframe s = (\<exists>v \<in> set (doc_contents s). v \<noteq> Video \<and> v \<noteq> VideoBanner)"

text \<open>\<^verbatim>\<open>document.getElementById("adshare-videoad")\<close>.\<close>

definition has_videoad :: "state \<Rightarrow> bool" where
  "has_videoad s = (Video \<in> set (doc_contents s))"

section \<open>Media player\<close>

text \<open>
  \<^verbatim>\<open>destroyVideoJsPlayer(videoElement)\<close>. With an element, \<^verbatim>\<open>videojs(videoElement)\<close>
  hands back the player of that element, which is disposed; without one the module's
  \<^verbatim>\<open>player\<close> is disposed when it is not null. Whatever is thrown is swallowed, and the
  \<^verbatim>\<open>finally\<close> block resets both variables.
\<close>

definition destroyVideoJsPlayer :: "bool \<Rightarrow> state \<Rightarrow> state" where
  "destroyVideoJsPlayer videoElement s =
     (let s1 = (if videoElement then s\<lparr>disposed := disposed s + 1\<rparr>
                else if player s then s\<lparr>disposed := disposed s + 1\<rparr>
                else s)
      in s1\<lparr>player := False, playerInitialized := False\<rparr>)"

text \<open>
  \<^verbatim>\<open>setupVideoJsPlayer(videoElement)\<close>, with the element looked up by its caller.
  \<^verbatim>\<open>videojs\<close> throws a \<^verbatim>\<open>TypeError\<close> for a null element, after
  \<^verbatim>\<open>playerInitialized\<close> has been set.
\<close>

definition setupVideoJsPlayer :: "bool \<Rightarrow> state \<Rightarrow> outcome" where
  "setupVideoJsPlayer videoElement s =
     (let s1 = (if playerInitialized s then destroyVideoJsPlayer videoElement s else s);
          s2 = s1\<lparr>playerInitialized := True\<rparr>
      in if videoElement then Normal (s2\<lparr>player := True, created := created s2 + 1\<rparr>)
         else Throw TypeError s2)"

section \<open>Countdown and teardown\<close>

definition startCountdownTimer :: "state \<Rightarrow> state" where
  "startCountdownTimer s =
     setTimeout CountdownTimer (JNum 100) (s\<lparr>adsharecountdownstart := Some (clock s)\<rparr>)"

text \<open>
  \<^verbatim>\<open>getCountdownTimeLeft\<close>; \<open>None\<close> is \<^verbatim>\<open>NaN\<close>, which results when the duration is not
  numeric or the start time is still undefined.
\<close>

definition getCountdownTimeLeft :: "state \<Rightarrow> int option" where
  "getCountdownTimeLeft s =
     (case (to_number (get_prop (moduleOptions s) ''countdownDuration''),
            adsharecountdownstart s) of
        (Some duration, Some start) \<Rightarrow> Some (duration - (clock s - start) div 1250)
      | _ \<Rightarrow> None)"

text \<open>\<^verbatim>\<open>timeLeft <= 0\<close>.\<close>

definition time_le0 :: "int option \<Rightarrow> bool" where
  "time_le0 t = (case t of None \<Rightarrow> False | Some n \<Rightarrow> n \<le> 0)"

text \<open>
  \<^verbatim>\<open>closePopup\<close>, together with \<^verbatim>\<open>close()\<close> of the modal library as the widget has
  configured it in \<^verbatim>\<open>createModalWindow\<close>. The \<^verbatim>\<open>beforeClose\<close> hook removes
  \<^verbatim>\<open>.pico-content\<close> from the document (a \<^verbatim>\<open>TypeError\<close> when there is none), disposes
  the player and clears a variable local to \<^verbatim>\<open>createModalWindow\<close>; the library then
  hides its elements and runs the \<^verbatim>\<open>afterClose\<close> hook, which calls \<^verbatim>\<open>closePopup\<close>
  and the configured \<^verbatim>\<open>afterClose\<close> callback inside one \<^verbatim>\<open>try\<close> with an empty
  \<^verbatim>\<open>catch\<close>. The configured callback is opaque: both places that call it swallow what
  it throws, and it cannot reach the module's variables.
\<close>

function closePopup :: "state \<Rightarrow> outcome" and modal_close :: "state \<Rightarrow> outcome" where
  "closePopup s =
     (let s1 = destroyVideoJsPlayer False s
      in if modal s1 \<noteq> None
         then Normal ((state_of (modal_close s1))\<lparr>container := None, modal := None\<rparr>)
         else (case container s1 of
                 Some (Box k att v b) \<Rightarrow>
                   if \<not> att then Throw TypeError s1
                   else (let s2 = s1\<lparr>container := Some (Box k False v b)\<rparr>
                         in if \<not> page_contentBox s2 then Throw TypeError s2
                            else Normal (s2\<lparr>container := None, modal := None\<rparr>))
               | None \<Rightarrow> Normal (s1\<lparr>container := None, modal := None\<rparr>)))"
| "modal_close s =
     (case modal s of
        Some (Modal v True) \<Rightarrow>
          (let s1 = destroyVideoJsPlayer False (s\<lparr>modal := Some (Modal v False)\<rparr>)
           in Normal (state_of (closePopup s1)))
      | _ \<Rightarrow> Throw TypeError s)"
  by pat_completeness auto
termination
  by (relation "measure (\<lambda>x. case x of
         Inl s \<Rightarrow> (case modal s of Some (Modal v True) \<Rightarrow> 3 | _ \<Rightarrow> 1)
       | Inr s \<Rightarrow> (case modal s of Some (Modal v True) \<Rightarrow> 2 | _ \<Rightarrow> 0))")
     (auto simp: destroyVideoJsPlayer_def Let_def split: option.splits modal_handle.splits bool.splits)

declare closePopup.simps [simp del] modal_close.simps [simp del]

text \<open>\<^verbatim>\<open>hideCloseButton\<close> and \<^verbatim>\<open>showCloseButton\<close> set a style of \<^verbatim>\<open>.pico-close\<close>.\<close>

definition showCloseButton :: "state \<Rightarrow> outcome" where
  "showCloseButton s = (if has_pico_close s then Normal s else Throw TypeError s)"

definition hideCloseButton :: "state \<Rightarrow> outcome" where
  "hideCloseButton s = (if has_pico_close s then Normal s else Throw TypeError s)"

text \<open>
  \<^verbatim>\<open>countdownTimer\<close>. In the elapsed branch the texts are rewritten (the second part
  inside a \<^verbatim>\<open>try\<close> with an empty \<^verbatim>\<open>catch\<close>), then the close button is shown and the
  popup closed when \<^verbatim>\<open>closeModalAutomatically\<close> is truthy. In the running branch the
  read \<^verbatim>\<open>moduleOptions.messages.countdownMessage.replace\<close> throws when
  \<^verbatim>\<open>messages\<close> is missing, and also when it is a primitive, whose
  \<^verbatim>\<open>countdownMessage\<close> is undefined.
\<close>

definition countdownTimer :: "state \<Rightarrow> outcome" where
  "countdownTimer s =
     (let timeLeft = getCountdownTimeLeft s
      in if time_le0 timeLeft
         then and_then (showCloseButton s)
                (\<lambda>s1. if truthy (get_prop (moduleOptions s1) ''closeModalAutomatically'')
                      then closePopup s1 else Normal s1)
         else if has_adshare_countdown s
              then (case moduleOptions s ''messages'' of
                      None \<Rightarrow> Throw TypeError s
                    | Some v \<Rightarrow> Throw TypeError s)
              else Normal (setTimeout CountdownTimer (JNum 100) s))"

section \<open>Presentation hosts\<close>

text \<open>
  \<^verbatim>\<open>createModalWindow(content)\<close> followed by the assignment of its result to
  \<^verbatim>\<open>modal\<close>, which every caller performs. The modal library builds nothing before
  \<^verbatim>\<open>show()\<close>.
\<close>

definition createModalWindow :: "variant \<Rightarrow> state \<Rightarrow> state" where
  "createModalWindow v s = s\<lparr>useFallback := False, modal := Some (Modal v False)\<rparr>"

text \<open>
  \<^verbatim>\<open>modal.show()\<close>: the library builds the elements into the document and runs the
  \<^verbatim>\<open>afterShow\<close> hook registered by \<^verbatim>\<open>createModalWindow\<close>.
\<close>

definition modal_show :: "state \<Rightarrow> outcome" where
  "modal_show s =
     (case modal s of
        None \<Rightarrow> Throw TypeError s
      | Some (Modal v b) \<Rightarrow>
          (let s1 = s\<lparr>modal := Some (Modal v True)\<rparr>
           in if js_gt0 (get_prop (moduleOptions s1) ''countdownDuration'')
              then and_then (hideCloseButton s1) (\<lambda>s2. Normal (startCountdownTimer s2))
              else Normal s1))"

text \<open>
  \<^verbatim>\<open>createContainer(content)\<close> and \<^verbatim>\<open>create404Container(content)\<close>, each followed by
  the assignment of its result to \<^verbatim>\<open>container\<close>. The first reads
  \<^verbatim>\<open>#contentBoxContainer\<close> and appends to \<^verbatim>\<open>#download\<close>, the second appends to the
  second element of class \<^verbatim>\<open>aC\<close>; a missing element throws before anything is
  appended.
\<close>

definition createContainer :: "variant \<Rightarrow> state \<Rightarrow> outcome" where
  "createContainer v s =
     (if \<not> page_contentBox s then Throw TypeError s
      else if \<not> page_download s then Throw TypeError s
      else Normal (s\<lparr>container := Some (Box False True v (button_of v))\<rparr>))"

definition create404Container :: "variant \<Rightarrow> state \<Rightarrow> outcome" where
  "create404Container v s =
     (if page_aC s < 2 then Throw TypeError s
      else Normal (s\<lparr>container := Some (Box True True v (button_of v))\<rparr>))"

text \<open>
  \<^verbatim>\<open>document.getElementById('adshare-modal-content').innerHTML = html\<close>, the first
  branch of the \<^verbatim>\<open>display*\<close> functions. The id is carried by the first child of a box
  made by \<^verbatim>\<open>createContainer\<close>, which sits inside the page and so comes first in
  document order, and by the wrapper of the modal.
\<close>

definition set_modal_content :: "variant \<Rightarrow> state \<Rightarrow> outcome" where
  "set_modal_content v s =
     (case container s of
        Some (Box False True w b) \<Rightarrow>
          Normal (s\<lparr>container := Some (Box False True v (button_after_update b))\<rparr>)
      | _ \<Rightarrow> (case modal s of
                Some (Modal w True) \<Rightarrow> Normal (s\<lparr>modal := Some (Modal v True)\<rparr>)
              | _ \<Rightarrow> Throw TypeError s))"

text \<open>
  The re-check \<^verbatim>\<open>if (getCountdownTimeLeft() <= 0) { countdownTimer(); }\<close> that follows
  a replacement of the content.
\<close>

definition recheck_countdown :: "state \<Rightarrow> outcome" where
  "recheck_countdown s =
     (if time_le0 (getCountdownTimeLeft s) then countdownTimer s else Normal s)"

text \<open>
  \<^verbatim>\<open>container.firstChild.innerHTML = html\<close> with the re-check, the second branch of
  the \<^verbatim>\<open>display*\<close> functions.
\<close>

definition set_container_content :: "variant \<Rightarrow> state \<Rightarrow> outcome" where
  "set_container_content v s =
     (case container s of
        None \<Rightarrow> Throw TypeError s
      | Some (Box k att w b) \<Rightarrow>
          recheck_countdown (s\<lparr>container := Some (Box k att v (button_after_update b))\<rparr>))"

text \<open>
  The last branch of the \<^verbatim>\<open>display*\<close> functions, taken when both references are
  null: a box with a fresh countdown when \<^verbatim>\<open>integration\<close> is \<^verbatim>\<open>'native'\<close>, a modal
  otherwise.
\<close>

definition create_host :: "variant \<Rightarrow> state \<Rightarrow> outcome" where
  "create_host v s =
     (if js_eq_str (get_prop (moduleOptions s) ''integration'') ''native''
      then and_then (createContainer v s) (\<lambda>s1. Normal (startCountdownTimer s1))
      else modal_show (createModalWindow v s))"

section \<open>Content variants\<close>

definition displayBannerAd :: "state \<Rightarrow> outcome" where
  "displayBannerAd s =
     and_then
       (if modal s \<noteq> None then set_modal_content Banner s
        else if container s \<noteq> None then set_container_content Banner s
        else create_host Banner s)
       (\<lambda>s1. Normal (setTimeout WriteBannerIFrameHtml (JNum 0) s1))"

definition displayContentAdFunnel :: "state \<Rightarrow> outcome" where
  "displayContentAdFunnel s =
     (if modal s \<noteq> None
      then and_then (set_modal_content ContentAdFunnel s) recheck_countdown
      else if container s \<noteq> None then set_container_content ContentAdFunnel s
      else if js_eq_str (get_prop (moduleOptions s) ''integration'') ''native''
      then (if error404 s then create404Container ContentAdFunnel404 s
            else and_then (createContainer ContentAdFunnel s)
                   (\<lambda>s1. Normal (startCountdownTimer s1)))
      else modal_show (createModalWindow ContentAdFunnel s))"

definition displayContentAd :: "state \<Rightarrow> outcome" where
  "displayContentAd s =
     and_then
       (if modal s \<noteq> None then set_modal_content ContentAd s
        else if container s \<noteq> None then set_container_content ContentAd s
        else create_host ContentAd s)
       (\<lambda>s1. Normal (setTimeout WriteContentAdIframeHtml (JNum 0) s1))"

definition displayContentAdV2 :: "state \<Rightarrow> outcome" where
  "displayContentAdV2 s =
     (if modal s \<noteq> None then set_modal_content ContentAdV2 s
      else if container s \<noteq> None then set_container_content ContentAdV2 s
      else create_host ContentAdV2 s)"

definition displayContentIframe :: "state \<Rightarrow> outcome" where
  "displayContentIframe s =
     (if modal s \<noteq> None
      then and_then (set_modal_content ContentIframe s) recheck_countdown
      else if container s \<noteq> None then set_container_content ContentIframe s
      else create_host ContentIframe s)"

definition displayContent404Iframe :: "state \<Rightarrow> outcome" where
  "displayContent404Iframe s = create404Container Content404Iframe s"

definition displayTalooba :: "state \<Rightarrow> outcome" where
  "displayTalooba s =
     and_then
       (if modal s \<noteq> None then set_modal_content Taboola s
        else if container s \<noteq> None then set_container_content Taboola s
        else create_host Taboola s)
       (\<lambda>s1. Normal (setTimeout WriteTaloobaIFrameHtml (JNum 0) s1))"

definition displayTalooba2ndCall :: "state \<Rightarrow> outcome" where
  "displayTalooba2ndCall s =
     and_then
       (if modal s \<noteq> None then set_modal_content Taboola s
        else if container s \<noteq> None then set_container_content Taboola s
        else create_host Taboola s)
       (\<lambda>s1. Normal (setTimeout WriteTalooba2ndCallIFrameHtml (JNum 0) s1))"

definition displayTalooba404 :: "state \<Rightarrow> outcome" where
  "displayTalooba404 s =
     and_then (create404Container Taboola s)
       (\<lambda>s1. Normal (setTimeout WriteTaloobaIFrameHtml (JNum 0) s1))"

text \<open>
  \<^verbatim>\<open>getVideoElementHTML\<close> is the one builder that can throw: it reads
  \<^verbatim>\<open>moduleOptions.playerOptions.videoPath\<close>.
\<close>

definition getVideoElementHTML :: "state \<Rightarrow> outcome" where
  "getVideoElementHTML s = (if playerOptions s = None then Throw TypeError s else Normal s)"

definition displayVideoAd :: "state \<Rightarrow> outcome" where
  "displayVideoAd s =
     (let s0 = s\<lparr>displaysFallbackAd := False\<rparr>
      in and_then
           (if modal s0 \<noteq> None
            then and_then (getVideoElementHTML (destroyVideoJsPlayer False s0))
                   (set_modal_content Video)
            else if container s0 \<noteq> None
            then and_then (getVideoElementHTML s0) (set_container_content Video)
            else and_then (getVideoElementHTML s0) (create_host Video))
           (\<lambda>s1. Normal (setTimeout SetupVideoJsPlayer (JNum 0) s1)))"

definition displayVideoBanner :: "state \<Rightarrow> outcome" where
  "displayVideoBanner s =
     (let s0 = s\<lparr>displaysFallbackAd := False\<rparr>
      in and_then
           (if modal s0 \<noteq> None then set_modal_content VideoBanner s0
            else if container s0 \<noteq> None then set_container_content VideoBanner s0
            else create_host VideoBanner s0)
           (\<lambda>s1. Normal (setTimeout ResetHasEndedFired (JNum 0) s1)))"

section \<open>Dispatcher\<close>

definition content_is :: "state \<Rightarrow> string \<Rightarrow> bool" where
  "content_is s c = js_eq_str (get_prop (moduleOptions s) ''content'') c"

definition displayAd :: "state \<Rightarrow> outcome" where
  "displayAd s =
     (case page_marker s of
        None \<Rightarrow> Throw TypeError s
      | Some True \<Rightarrow>
          displayContent404Iframe ((set_option ''e404'' (JBool True) s)\<lparr>error404 := True\<rparr>)
      | Some False \<Rightarrow>
          if content_is s ''optimizely1'' then
            (if getBrowserLanguage s = ''de''
             then displayContentIframe
                    (set_option ''iframeUrl''
                       (JStr ''http://neuestens.de/facebook-videos/picks.html'') s)
             else and_then (displayVideoAd s)
                    (\<lambda>s1. Normal (setTimeout VideoAdFallback
                                     (get_prop (moduleOptions s1) ''videoAdTimeout'') s1)))
          else if content_is s ''smart'' then
            (if getBrowserLanguage s = ''de''
             then and_then (displayTalooba s)
                    (\<lambda>s1. Normal (setTimeout SmartSwitch (JNum (20 * 1000)) s1))
             else displayTalooba s)
          else if content_is s ''mix1'' then
            and_then (displayTalooba s)
              (\<lambda>s1. if getBrowserLanguage s = ''de'' \<or> getBrowserLanguage s = ''en''
                    then Normal (setTimeout Mix1Switch (JNum (15 * 1000)) s1)
                    else Normal s1)
          else if content_is s ''mix2'' then
            and_then (displayTalooba s)
              (\<lambda>s1. if getBrowserLanguage s = ''de'' \<or> getBrowserLanguage s = ''en''
                    then Normal (setTimeout Mix2Switch (JNum (15 * 1000)) s1)
                    else Normal s1)
          else if content_is s ''videobanner'' then displayVideoBanner s
          else if content_is s ''taboola'' then displayTalooba s
          else if content_is s ''video'' then displayVideoAd s
          else if content_is s ''taboola2ndcall'' then displayTalooba2ndCall s
          else if content_is s ''banner'' then displayBannerAd s
          else if content_is s ''contentad'' then displayContentAdV2 s
          else if content_is s ''contentadfunnel'' then displayContentAdFunnel s
          else if content_is s ''iframe'' then displayContentIframe s
          else Normal s)"

section \<open>Timer callbacks, messages and the entry point\<close>

text \<open>
  The four \<^verbatim>\<open>write*IFrameHtml\<close> functions look up \<^verbatim>\<open>#adshare-banner-iframe\<close> and
  write into its window.
\<close>

definition writeIFrameHtml :: "state \<Rightarrow> outcome" where
  "writeIFrameHtml s = (if has_banner_iframe s then Normal s else Throw TypeError s)"

text \<open>The body of each function handed to \<^verbatim>\<open>setTimeout\<close>.\<close>

definition fire :: "callback \<Rightarrow> state \<Rightarrow> outcome" where
  "fire cb s =
     (case cb of
        CountdownTimer \<Rightarrow> countdownTimer s
      | WriteBannerIFrameHtml \<Rightarrow> writeIFrameHtml s
      | WriteContentAdIframeHtml \<Rightarrow> writeIFrameHtml s
      | WriteTaloobaIFrameHtml \<Rightarrow> writeIFrameHtml s
      | WriteTalooba2ndCallIFrameHtml \<Rightarrow> writeIFrameHtml s
      | SetupVideoJsPlayer \<Rightarrow>
          and_then (setupVideoJsPlayer (has_videoad s) s)
            (\<lambda>s1. Normal (s1\<lparr>hasEndedFired := False\<rparr>))
      | ResetHasEndedFired \<Rightarrow> Normal (s\<lparr>hasEndedFired := False\<rparr>)
      | DisplayAd \<Rightarrow> displayAd s
      | VideoAdFallback \<Rightarrow>
          if \<not> startedVideoAd s
          then (if ima s = None then Throw TypeError s
                else displayVideoAd
                       (destroyVideoJsPlayer False
                          (set_ima ''adTagUrl''
                             (get_prop (moduleOptions s) ''fallBackAdTagUrl'') s)))
          else Normal s
      | SmartSwitch \<Rightarrow> if modal s \<noteq> None then displayContentIframe s else Normal s
      | Mix1Switch \<Rightarrow> if modal s \<noteq> None then displayContentAdV2 s else Normal s
      | Mix2Switch \<Rightarrow> if modal s \<noteq> None then displayContentAdFunnel s else Normal s)"

text \<open>The browser runs the pending timer at position \<open>i\<close>, which leaves the list.\<close>

definition run_timer :: "nat \<Rightarrow> state \<Rightarrow> outcome" where
  "run_timer i s =
     (if i < length (timers s)
      then fire (snd (timers s ! i)) (s\<lparr>timers := take i (timers s) @ drop (Suc i) (timers s)\<rparr>)
      else Normal s)"

text \<open>The player's \<^verbatim>\<open>adstart\<close> event, as handled in \<^verbatim>\<open>setupVideoJsPlayer\<close>.\<close>

definition on_adstart :: "state \<Rightarrow> state" where
  "on_adstart s = s\<lparr>startedVideoAd := True\<rparr>"

text \<open>
  \<^verbatim>\<open>receiveMessage(event)\<close>, by \<^verbatim>\<open>event.data.type\<close>. The resize branch styles the
  element found by \<^verbatim>\<open>document.querySelector('.pico-content iframe')\<close>.
\<close>

definition receiveMessage :: "string \<Rightarrow> state \<Rightarrow> outcome" where
  "receiveMessage type s =
     (if type = ''resize'' then
        (case modal s of
           Some (Modal v True) \<Rightarrow>
             if v \<noteq> Video \<and> v \<noteq> VideoBanner then Normal s else Throw TypeError s
         | _ \<Rightarrow> Throw TypeError s)
      else if type = ''displaybanner'' then displayBannerAd s
      else if type = ''taboola'' then displayTalooba s
      else if type = ''contentreco'' then displayContentAd s
      else if type = ''closepopup'' then closePopup s
      else if type = ''closetaboola'' then displayContentAdFunnel s
      else Normal s)"

text \<open>
  \<^verbatim>\<open>adshareModal(param1)\<close> for an argument that is not a selector string: the options
  are applied and \<^verbatim>\<open>displayAd\<close> is scheduled after \<^verbatim>\<open>timeout\<close> ms.
\<close>

definition adshareModal :: "obj option \<Rightarrow> state \<Rightarrow> state" where
  "adshareModal param1 s =
     (let s1 = applyOptions param1 s
      in setTimeout DisplayAd (get_prop (moduleOptions s1) ''timeout'') s1)"

text \<open>
  The module right after the script has run, in a browser with the given storage, page
  configuration, language, time and page elements.
\<close>

definition loaded :: "storage \<Rightarrow> obj option \<Rightarrow> string \<Rightarrow> int \<Rightarrow> bool option \<Rightarrow> bool \<Rightarrow> bool \<Rightarrow> nat \<Rightarrow> state" where
  "loaded st cfg lang now marker cbox dl ac =
     \<lparr>storage = st, funnelmecfg = cfg, nav_language = lang, clock = now,
      page_marker = marker, page_contentBox = cbox, page_download = dl, page_aC = ac,
      options = Some Map.empty, moduleOptions = Map.empty, playerOptions = None, ima = None,
      error404 = False, player = False, modal = None, container = None,
      playerInitialized = False, adsharecountdownstart = None, startedVideoAd = False,
      displaysFallbackAd = False, hasEndedFired = False, useFallback = False, timers = [],
      created = 0, disposed = 0\<rparr>"

section \<open>What a call leaves alone\<close>

text \<open>
  A relation between the state before and after a call, used to carry facts through
  the nested calls of the \<^verbatim>\<open>display*\<close> functions: the call makes no player, leaves the
  configuration alone, adds timeouts only for the callbacks in \<open>A\<close>, and, when no
  player is live or initialized before, none is afterwards and none has been disposed.
\<close>

definition leaves :: "callback set \<Rightarrow> state \<Rightarrow> state \<Rightarrow> bool" where
  "leaves A s s' \<longleftrightarrow>
     created s' = created s \<and> ima s' = ima s \<and> moduleOptions s' = moduleOptions s
     \<and> playerOptions s' = playerOptions s \<and> startedVideoAd s' = startedVideoAd s
     \<and> (\<forall>cb. cb \<notin> A \<longrightarrow>
           filter (\<lambda>t. snd t = cb) (timers s') = filter (\<lambda>t. snd t = cb) (timers s))
     \<and> (\<not> player s \<longrightarrow> \<not> player s' \<and> disposed s' = disposed s)
     \<and> (\<not> playerInitialized s \<longrightarrow> \<not> playerInitialized s')"

text \<open>The two references to a presentation host are not both non-null.\<close>

definition hosts_exclusive :: "state \<Rightarrow> bool" where
  "hosts_exclusive s \<longleftrightarrow> modal s = None \<or> container s = None"

section \<open>Properties of the configuration resolver\<close>


lemma or_empty_Some [simp]: "or_empty (Some m) = m"
  by (simp add: or_empty_def)

lemma or_empty_idem [simp]: "or_empty (Some (or_empty m)) = or_empty m"
  by simp

lemma getSessionStorageOverride_cong:
  "storage s' = storage s \<Longrightarrow> getSessionStorageOverride s' n = getSessionStorageOverride s n"
  by (simp add: getSessionStorageOverride_def)

lemma determineOptionValue_fst:
  "fst (determineOptionValue name s) =
     js_or (js_or (js_or (getSessionStorageOverride s name)
                         (get_prop (or_empty (funnelmecfg s)) name))
                  (get_prop (or_empty (options s)) name))
           (get_prop (moduleOptions s) name)"
  by (simp add: determineOptionValue_def Let_def getSessionStorageOverride_def)

lemma determineOptionValue_snd:
  "snd (determineOptionValue name s) =
     s\<lparr>options := Some (or_empty (options s)), funnelmecfg := Some (or_empty (funnelmecfg s))\<rparr>"
  by (simp add: determineOptionValue_def Let_def)

lemma assignOption_eq:
  "assignOption name s =
     s\<lparr>options := Some (or_empty (options s)), funnelmecfg := Some (or_empty (funnelmecfg s)),
       moduleOptions := (moduleOptions s)(name \<mapsto> fst (determineOptionValue name s))\<rparr>"
  by (simp add: assignOption_def split_beta determineOptionValue_snd)

lemma assignOption_sources [simp]:
  "storage (assignOption k s) = storage s"
  "or_empty (funnelmecfg (assignOption k s)) = or_empty (funnelmecfg s)"
  "or_empty (options (assignOption k s)) = or_empty (options s)"
  "playerOptions (assignOption k s) = playerOptions s"
  "ima (assignOption k s) = ima s"
  by (simp_all add: assignOption_eq)

lemma assignOption_moduleOptions:
  "moduleOptions (assignOption k s) = (moduleOptions s)(k \<mapsto> fst (determineOptionValue k s))"
  by (simp add: assignOption_eq)

lemma determineOptionValue_assignOption_other:
  "name \<noteq> k \<Longrightarrow> fst (determineOptionValue name (assignOption k s)) = fst (determineOptionValue name s)"
  by (simp add: determineOptionValue_fst getSessionStorageOverride_def assignOption_moduleOptions get_prop_def)

lemma fold_assignOption_sources [simp]:
  "storage (fold assignOption ks s) = storage s"
  "or_empty (funnelmecfg (fold assignOption ks s)) = or_empty (funnelmecfg s)"
  "or_empty (options (fold assignOption ks s)) = or_empty (options s)"
  "playerOptions (fold assignOption ks s) = playerOptions s"
  "ima (fold assignOption ks s) = ima s"
  by (induction ks arbitrary: s; simp)+

lemma fold_assignOption_other:
  "k \<notin> set ks \<Longrightarrow> moduleOptions (fold assignOption ks s) k = moduleOptions s k"
  by (induction ks arbitrary: s) (auto simp: assignOption_moduleOptions)

lemma determineOptionValue_fold_other:
  "k \<notin> set ks \<Longrightarrow> fst (determineOptionValue k (fold assignOption ks s)) = fst (determineOptionValue k s)"
  by (simp add: determineOptionValue_fst getSessionStorageOverride_def get_prop_def fold_assignOption_other)

lemma fold_assignOption_assigned:
  "distinct ks \<Longrightarrow> k \<in> set ks \<Longrightarrow>
     moduleOptions (fold assignOption ks s) k = Some (fst (determineOptionValue k s))"
proof (induction ks arbitrary: s)
  case Nil
  then show ?case by simp
next
  case (Cons a ks)
  show ?case
  proof (cases "k = a")
    case True
    with Cons.prems have "k \<notin> set ks" by simp
    then show ?thesis
      using True by (simp add: fold_assignOption_other assignOption_moduleOptions)
  next
    case False
    with Cons.prems have "k \<in> set ks" "distinct ks" by simp_all
    then show ?thesis
      using Cons.IH [of "assignOption a s"] False
      by (simp add: determineOptionValue_assignOption_other)
  qed
qed

lemma assignVideoPath_sources [simp]:
  "storage (assignVideoPath s) = storage s"
  "or_empty (funnelmecfg (assignVideoPath s)) = or_empty (funnelmecfg s)"
  "or_empty (options (assignVideoPath s)) = or_empty (options s)"
  "moduleOptions (assignVideoPath s) = moduleOptions s"
  "ima (assignVideoPath s) = ima s"
  by (simp_all add: assignVideoPath_def split_beta determineOptionValue_snd)

lemma set_option_fields [simp]:
  "storage (set_option k v s) = storage s"
  "options (set_option k v s) = options s"
  "funnelmecfg (set_option k v s) = funnelmecfg s"
  "ima (set_option k v s) = ima s"
  "playerOptions (set_option k v s) = playerOptions s"
  "moduleOptions (set_option k v s) = (moduleOptions s)(k \<mapsto> v)"
  by (simp_all add: set_option_def)

lemma set_ima_fields [simp]:
  "storage (set_ima k v s) = storage s"
  "options (set_ima k v s) = options s"
  "funnelmecfg (set_ima k v s) = funnelmecfg s"
  "moduleOptions (set_ima k v s) = moduleOptions s"
  "playerOptions (set_ima k v s) = playerOptions s"
  "ima (set_ima k v s) = Some ((or_empty (ima s))(k \<mapsto> v))"
  by (simp_all add: set_ima_def)

lemma postprocess_moduleOptions:
  "moduleOptions (postprocess s) =
     (let m = moduleOptions s;
          m1 = (if js_le0 (get_prop m ''countdownDuration'')
                then m(''closeModalAutomatically'' \<mapsto> JBool False) else m);
          m2 = (if is_string (get_prop m1 ''closeModalAutomatically'')
                then m1(''closeModalAutomatically'' \<mapsto>
                       JBool (get_prop m1 ''closeModalAutomatically'' = JStr ''true''))
                else m1)
      in if is_string (get_prop m2 ''download'')
         then m2(''download'' \<mapsto> JBool (get_prop m2 ''download'' = JStr ''true''))
         else m2)"
  by (simp add: postprocess_def Let_def)

lemma postprocess_other:
  "k \<noteq> ''closeModalAutomatically'' \<Longrightarrow> k \<noteq> ''download'' \<Longrightarrow>
     moduleOptions (postprocess s) k = moduleOptions s k"
  by (simp add: postprocess_moduleOptions Let_def)


lemma determineOptionValue_depends:
  "storage s' = storage s \<Longrightarrow> or_empty (funnelmecfg s') = or_empty (funnelmecfg s) \<Longrightarrow>
   or_empty (options s') = or_empty (options s) \<Longrightarrow> moduleOptions s' name = moduleOptions s name \<Longrightarrow>
   fst (determineOptionValue name s') = fst (determineOptionValue name s)"
  by (simp add: determineOptionValue_fst getSessionStorageOverride_def get_prop_def)

lemma applyOptions_Some:
  "applyOptions (Some opts) s =
     postprocess
       (fold assignOption
          [''bannerContentUnitId'', ''afterClose'', ''closeModalAutomatically'',
           ''iframeUrl'', ''timeout'', ''videoAdTimeout'', ''assetPath'', ''download'',
           ''locale'', ''debug'', ''e404'']
          (assignVideoPath
             (fold assignOption
                [''adTagUrl'', ''fallBackAdTagUrl'', ''position'', ''integration'',
                 ''header'', ''content'', ''countdownDuration'', ''premiumButtonUrl'']
                (s\<lparr>options := Some opts, moduleOptions := defaultOptions,
                   playerOptions := Some defaultPlayerOptions, ima := Some defaultIma\<rparr>))))"
  unfolding applyOptions_def Let_def by (simp only: option.simps if_False)

lemma assigned_before_postprocess:
  assumes "k \<in> set [''adTagUrl'', ''fallBackAdTagUrl'', ''position'', ''integration'',
                 ''header'', ''content'', ''countdownDuration'', ''premiumButtonUrl'',
                 ''bannerContentUnitId'', ''afterClose'', ''closeModalAutomatically'',
           ''iframeUrl'', ''timeout'', ''videoAdTimeout'', ''assetPath'', ''download'',
           ''locale'', ''debug'', ''e404'']"
  shows "moduleOptions (fold assignOption
          [''bannerContentUnitId'', ''afterClose'', ''closeModalAutomatically'',
           ''iframeUrl'', ''timeout'', ''videoAdTimeout'', ''assetPath'', ''download'',
           ''locale'', ''debug'', ''e404'']
          (assignVideoPath
             (fold assignOption
                [''adTagUrl'', ''fallBackAdTagUrl'', ''position'', ''integration'',
                 ''header'', ''content'', ''countdownDuration'', ''premiumButtonUrl'']
                 s0))) k = Some (fst (determineOptionValue k s0))"
    (is "moduleOptions (fold assignOption ?ks2 (assignVideoPath (fold assignOption ?ks1 s0))) k = _")
proof (cases "k \<in> set ?ks1")
  case True
  then have "k \<notin> set ?ks2" by auto
  then have "moduleOptions (fold assignOption ?ks2 (assignVideoPath (fold assignOption ?ks1 s0))) k
      = moduleOptions (assignVideoPath (fold assignOption ?ks1 s0)) k"
    by (rule fold_assignOption_other)
  also have "\<dots> = moduleOptions (fold assignOption ?ks1 s0) k"
    by (simp only: assignVideoPath_sources)
  also have "\<dots> = Some (fst (determineOptionValue k s0))"
  proof (rule fold_assignOption_assigned)
    show "distinct ?ks1" by simp
    show "k \<in> set ?ks1" by (rule True)
  qed
  finally show ?thesis .
next
  case False
  with assms have in2: "k \<in> set ?ks2" by auto
  have "moduleOptions (fold assignOption ?ks2 (assignVideoPath (fold assignOption ?ks1 s0))) k
      = Some (fst (determineOptionValue k (assignVideoPath (fold assignOption ?ks1 s0))))"
  proof (rule fold_assignOption_assigned)
    show "distinct ?ks2" by simp
    show "k \<in> set ?ks2" by (rule in2)
  qed
  also have "fst (determineOptionValue k (assignVideoPath (fold assignOption ?ks1 s0)))
      = fst (determineOptionValue k s0)"
  proof (rule determineOptionValue_depends)
    show "storage (assignVideoPath (fold assignOption ?ks1 s0)) = storage s0"
      by (simp only: assignVideoPath_sources fold_assignOption_sources)
    show "or_empty (funnelmecfg (assignVideoPath (fold assignOption ?ks1 s0))) = or_empty (funnelmecfg s0)"
      by (simp only: assignVideoPath_sources fold_assignOption_sources)
    show "or_empty (options (assignVideoPath (fold assignOption ?ks1 s0))) = or_empty (options s0)"
      by (simp only: assignVideoPath_sources fold_assignOption_sources)
    have "moduleOptions (fold assignOption ?ks1 s0) k = moduleOptions s0 k"
      using False by (rule fold_assignOption_other)
    then show "moduleOptions (assignVideoPath (fold assignOption ?ks1 s0)) k = moduleOptions s0 k"
      by (simp only: assignVideoPath_sources)
  qed
  finally show ?thesis .
qed

lemma other_before_postprocess:
  assumes "k \<notin> set [''adTagUrl'', ''fallBackAdTagUrl'', ''position'', ''integration'',
                 ''header'', ''content'', ''countdownDuration'', ''premiumButtonUrl'',
                 ''bannerContentUnitId'', ''afterClose'', ''closeModalAutomatically'',
           ''iframeUrl'', ''timeout'', ''videoAdTimeout'', ''assetPath'', ''download'',
           ''locale'', ''debug'', ''e404'']"
  shows "moduleOptions (fold assignOption
          [''bannerContentUnitId'', ''afterClose'', ''closeModalAutomatically'',
           ''iframeUrl'', ''timeout'', ''videoAdTimeout'', ''assetPath'', ''download'',
           ''locale'', ''debug'', ''e404'']
          (assignVideoPath
             (fold assignOption
                [''adTagUrl'', ''fallBackAdTagUrl'', ''position'', ''integration'',
                 ''header'', ''content'', ''countdownDuration'', ''premiumButtonUrl'']
                 s0))) k = moduleOptions s0 k"
    (is "moduleOptions (fold assignOption ?ks2 (assignVideoPath (fold assignOption ?ks1 s0))) k = _")
proof -
  from assms have n1: "k \<notin> set ?ks1" and n2: "k \<notin> set ?ks2" by auto
  have "moduleOptions (fold assignOption ?ks2 (assignVideoPath (fold assignOption ?ks1 s0))) k
      = moduleOptions (assignVideoPath (fold assignOption ?ks1 s0)) k"
    using n2 by (rule fold_assignOption_other)
  also have "\<dots> = moduleOptions (fold assignOption ?ks1 s0) k"
    by (simp only: assignVideoPath_sources)
  also have "\<dots> = moduleOptions s0 k"
    using n1 by (rule fold_assignOption_other)
  finally show ?thesis .
qed

lemma defaultOptions_messages: "defaultOptions ''messages'' = None"
  by (simp add: defaultOptions_def)

lemma applyOptions_no_messages: "moduleOptions (applyOptions opts s) ''messages'' = None"
proof (cases opts)
  case None
  then show ?thesis by (simp add: applyOptions_def defaultOptions_messages)
next
  case (Some a)
  have "moduleOptions (applyOptions (Some a) s) ''messages''
      = moduleOptions (s\<lparr>options := Some a, moduleOptions := defaultOptions,
                   playerOptions := Some defaultPlayerOptions, ima := Some defaultIma\<rparr>) ''messages''"
    unfolding applyOptions_Some
    by (subst postprocess_other, simp, simp, rule other_before_postprocess) simp
  then show ?thesis
    unfolding Some by (simp add: defaultOptions_messages)
qed


lemma resolved_on_defaults:
  "fst (determineOptionValue k (s\<lparr>options := Some opts, moduleOptions := defaultOptions,
                   playerOptions := Some defaultPlayerOptions, ima := Some defaultIma\<rparr>))
   = fst (determineOptionValue k (s\<lparr>options := Some opts, moduleOptions := defaultOptions\<rparr>))"
  by (rule determineOptionValue_depends) simp_all

lemma applyOptions_direct:
  assumes "name \<in> set [''adTagUrl'', ''fallBackAdTagUrl'', ''position'', ''integration'',
             ''header'', ''content'', ''countdownDuration'', ''premiumButtonUrl'',
             ''bannerContentUnitId'', ''afterClose'', ''iframeUrl'', ''timeout'',
             ''videoAdTimeout'', ''assetPath'', ''locale'', ''debug'', ''e404'']"
  shows "moduleOptions (applyOptions (Some opts) s) name =
           Some (fst (determineOptionValue name
                   (s\<lparr>options := Some opts, moduleOptions := defaultOptions\<rparr>)))"
proof -
  from assms have ne: "name \<noteq> ''closeModalAutomatically''" "name \<noteq> ''download''" by auto
  from assms have mem: "name \<in> set [''adTagUrl'', ''fallBackAdTagUrl'', ''position'', ''integration'',
                 ''header'', ''content'', ''countdownDuration'', ''premiumButtonUrl'',
                 ''bannerContentUnitId'', ''afterClose'', ''closeModalAutomatically'',
           ''iframeUrl'', ''timeout'', ''videoAdTimeout'', ''assetPath'', ''download'',
           ''locale'', ''debug'', ''e404'']" by auto
  show ?thesis
    unfolding applyOptions_Some
    by (subst postprocess_other [OF ne], subst assigned_before_postprocess [OF mem])
       (simp only: resolved_on_defaults)
qed





text \<open>
  \<^verbatim>\<open>videoPath\<close> is resolved against \<^verbatim>\<open>moduleOptions['videoPath']\<close>, which does not exist:
  the default \<^verbatim>\<open>'./vids/'\<close> sits in \<^verbatim>\<open>moduleOptions.playerOptions\<close>. With no source for
  it, \<^verbatim>\<open>applyOptions\<close> leaves \<^verbatim>\<open>playerOptions.videoPath\<close> undefined.
\<close>

lemma applyOptions_videoPath_undefined:
  "get_prop (or_empty (playerOptions (applyOptions (Some Map.empty)
      (loaded StorageAbsent None ''en-US'' 0 (Some False) True True 0)))) ''videoPath''
     = JUndefined"
  by code_simp

text \<open>
  Claim C1, as amended. \<^verbatim>\<open>determineOptionValue(name)\<close> yields the first truthy value
  among the session-storage entry (when storage can be read), \<^verbatim>\<open>funnelmecfg[name]\<close> and
  \<^verbatim>\<open>options[name]\<close>, in that order, and \<^verbatim>\<open>moduleOptions[name]\<close> when none of them is
  truthy. For each of the seventeen options that \<^verbatim>\<open>applyOptions\<close> stores as resolved,
  the effective configuration holds that value, with the built-in default in the last
  place.
\<close>
theorem determineOptionValue_first_truthy:
  "fst (determineOptionValue name s) =
     (if truthy (getSessionStorageOverride s name) then getSessionStorageOverride s name
      else if truthy (get_prop (or_empty (funnelmecfg s)) name)
      then get_prop (or_empty (funnelmecfg s)) name
      else if truthy (get_prop (or_empty (options s)) name)
      then get_prop (or_empty (options s)) name
      else get_prop (moduleOptions s) name)
   \<and> (name \<in> set [''adTagUrl'', ''fallBackAdTagUrl'', ''position'', ''integration'',
             ''header'', ''content'', ''countdownDuration'', ''premiumButtonUrl'',
             ''bannerContentUnitId'', ''afterClose'', ''iframeUrl'', ''timeout'',
             ''videoAdTimeout'', ''assetPath'', ''locale'', ''debug'', ''e404''] \<longrightarrow>
       get_prop (moduleOptions (applyOptions (Some opts) s)) name =
         (if truthy (getSessionStorageOverride s name) then getSessionStorageOverride s name
          else if truthy (get_prop (or_empty (funnelmecfg s)) name)
          then get_prop (or_empty (funnelmecfg s)) name
          else if truthy (get_prop opts name) then get_prop opts name
          else get_prop defaultOptions name))"
proof (intro conjI impI)
  show "fst (determineOptionValue name s) =
     (if truthy (getSessionStorageOverride s name) then getSessionStorageOverride s name
      else if truthy (get_prop (or_empty (funnelmecfg s)) name)
      then get_prop (or_empty (funnelmecfg s)) name
      else if truthy (get_prop (or_empty (options s)) name)
      then get_prop (or_empty (options s)) name
      else get_prop (moduleOptions s) name)"
    by (simp add: determineOptionValue_fst js_or_def)
next
  assume "name \<in> set [''adTagUrl'', ''fallBackAdTagUrl'', ''position'', ''integration'',
             ''header'', ''content'', ''countdownDuration'', ''premiumButtonUrl'',
             ''bannerContentUnitId'', ''afterClose'', ''iframeUrl'', ''timeout'',
             ''videoAdTimeout'', ''assetPath'', ''locale'', ''debug'', ''e404'']"
  then have "moduleOptions (applyOptions (Some opts) s) name =
           Some (fst (determineOptionValue name
                   (s\<lparr>options := Some opts, moduleOptions := defaultOptions\<rparr>)))"
    by (rule applyOptions_direct)
  then show "get_prop (moduleOptions (applyOptions (Some opts) s)) name =
         (if truthy (getSessionStorageOverride s name) then getSessionStorageOverride s name
          else if truthy (get_prop (or_empty (funnelmecfg s)) name)
          then get_prop (or_empty (funnelmecfg s)) name
          else if truthy (get_prop opts name) then get_prop opts name
          else get_prop defaultOptions name)"
    by (simp add: get_prop_def [of "moduleOptions (applyOptions (Some opts) s)"]
          determineOptionValue_fst js_or_def getSessionStorageOverride_def)
qed

text \<open>
  The theorem at the option \<^verbatim>\<open>content\<close>, with a value in each of the three sources.
\<close>

theorem determineOptionValue_first_truthy_witness:
  "''content'' \<in> set [''adTagUrl'', ''fallBackAdTagUrl'', ''position'', ''integration'',
             ''header'', ''content'', ''countdownDuration'', ''premiumButtonUrl'',
             ''bannerContentUnitId'', ''afterClose'', ''iframeUrl'', ''timeout'',
             ''videoAdTimeout'', ''assetPath'', ''locale'', ''debug'', ''e404'']
   \<and> get_prop (moduleOptions (applyOptions (Some [''content'' \<mapsto> JStr ''video''])
         (loaded (Storage [''content'' \<mapsto> ''banner'']) (Some [''content'' \<mapsto> JStr ''taboola''])
            ''en-US'' 0 (Some False) True True 0))) ''content'' = JStr ''banner''"
  using determineOptionValue_first_truthy
    [of "''content''"
        "loaded (Storage [''content'' \<mapsto> ''banner'']) (Some [''content'' \<mapsto> JStr ''taboola''])
            ''en-US'' 0 (Some False) True True 0"
        "[''content'' \<mapsto> JStr ''video'']"]
  by (simp add: getSessionStorageOverride_def loaded_def)

text \<open>
  Claim C1 as stated fails: session storage holds the empty string for \<^verbatim>\<open>content\<close>,
  a value that is present and read without an exception, and yet the value of
  \<^verbatim>\<open>funnelmecfg\<close> is the one returned and stored.
\<close>

theorem session_value_present_counterexample:
  "getSessionStorageOverride
      (loaded (Storage [''content'' \<mapsto> []]) (Some [''content'' \<mapsto> JStr ''banner''])
         ''en-US'' 0 (Some False) True True 0) ''content'' = JStr []
   \<and> fst (determineOptionValue ''content''
        (loaded (Storage [''content'' \<mapsto> []]) (Some [''content'' \<mapsto> JStr ''banner''])
           ''en-US'' 0 (Some False) True True 0)) = JStr ''banner''
   \<and> get_prop (moduleOptions (applyOptions (Some Map.empty)
        (loaded (Storage [''content'' \<mapsto> []]) (Some [''content'' \<mapsto> JStr ''banner''])
           ''en-US'' 0 (Some False) True True 0))) ''content'' = JStr ''banner''"
  by code_simp


text \<open>
  Claim C8. A falsy value at a source counts as absent: with the empty string in
  session storage, or with \<^verbatim>\<open>false\<close>, \<^verbatim>\<open>0\<close>, \<^verbatim>\<open>null\<close> or the empty string in
  \<^verbatim>\<open>funnelmecfg\<close> or in the caller's options, \<^verbatim>\<open>determineOptionValue\<close> returns what the
  remaining sources give. In particular a caller option \<^verbatim>\<open>false\<close> or \<^verbatim>\<open>0\<close> is never
  the result when the built-in default is truthy.
\<close>

theorem determineOptionValue_falsy_falls_through:
  "(storage s = Storage items \<and> items name = Some [] \<longrightarrow>
      fst (determineOptionValue name s) =
        js_or (js_or (get_prop (or_empty (funnelmecfg s)) name)
                     (get_prop (or_empty (options s)) name))
              (get_prop (moduleOptions s) name))
   \<and> (get_prop (or_empty (funnelmecfg s)) name \<in> {JBool False, JNum 0, JNull, JStr []} \<longrightarrow>
      fst (determineOptionValue name s) =
        js_or (js_or (getSessionStorageOverride s name)
                     (get_prop (or_empty (options s)) name))
              (get_prop (moduleOptions s) name))
   \<and> (get_prop (or_empty (options s)) name \<in> {JBool False, JNum 0, JNull, JStr []} \<longrightarrow>
      fst (determineOptionValue name s) =
        js_or (js_or (getSessionStorageOverride s name)
                     (get_prop (or_empty (funnelmecfg s)) name))
              (get_prop (moduleOptions s) name))
   \<and> (get_prop (or_empty (options s)) name \<in> {JBool False, JNum 0} \<and>
        truthy (get_prop (moduleOptions s) name) \<longrightarrow>
      truthy (fst (determineOptionValue name s)) \<and>
      fst (determineOptionValue name s) \<noteq> get_prop (or_empty (options s)) name)"
  by (auto simp: determineOptionValue_fst js_or_def getSessionStorageOverride_def)

text \<open>
  The theorem at \<^verbatim>\<open>download\<close>, whose default is \<^verbatim>\<open>true\<close>, with a falsy value in each of
  the three sources.
\<close>

theorem determineOptionValue_falsy_falls_through_witness:
  "fst (determineOptionValue ''download''
     ((loaded (Storage [''download'' \<mapsto> []]) (Some [''download'' \<mapsto> JNum 0])
        ''en-US'' 0 (Some False) True True 0)
      \<lparr>options := Some [''download'' \<mapsto> JBool False], moduleOptions := defaultOptions\<rparr>))
   = JBool True"
proof -
  let ?s = "(loaded (Storage [''download'' \<mapsto> []]) (Some [''download'' \<mapsto> JNum 0])
        ''en-US'' 0 (Some False) True True 0)
      \<lparr>options := Some [''download'' \<mapsto> JBool False], moduleOptions := defaultOptions\<rparr>"
  have st: "storage ?s = Storage [''download'' \<mapsto> []] \<and> [''download'' \<mapsto> []] ''download'' = Some []"
    by (simp add: loaded_def)
  have cfg: "get_prop (or_empty (funnelmecfg ?s)) ''download'' \<in> {JBool False, JNum 0, JNull, JStr []}"
    by (simp add: loaded_def get_prop_def)
  have opt: "get_prop (or_empty (options ?s)) ''download'' \<in> {JBool False, JNum 0, JNull, JStr []}"
    by (simp add: get_prop_def)
  have opt2: "get_prop (or_empty (options ?s)) ''download'' \<in> {JBool False, JNum 0} \<and>
        truthy (get_prop (moduleOptions ?s) ''download'')"
    by (simp add: get_prop_def defaultOptions_def)
  from determineOptionValue_falsy_falls_through [where s = ?s and items = "[''download'' \<mapsto> []]" and name = "''download''"] st cfg opt opt2
  show ?thesis
    by (simp add: get_prop_def defaultOptions_def js_or_def loaded_def)
qed




section \<open>Properties of the countdown and of localization\<close>

lemma le_div_1250: "(d \<le> x div 1250) = (d * 1250 \<le> (x::int))"
proof
  assume a: "d \<le> x div 1250"
  have "x div 1250 * 1250 = x - x mod 1250"
    by (simp add: minus_mod_eq_div_mult)
  moreover have "0 \<le> x mod 1250" by simp
  ultimately have "x div 1250 * 1250 \<le> x" by linarith
  moreover from a have "d * 1250 \<le> x div 1250 * 1250" by simp
  ultimately show "d * 1250 \<le> x" by linarith
next
  assume "d * 1250 \<le> x"
  then have "(d * 1250) div 1250 \<le> x div 1250" by (rule zdiv_mono1) simp
  then show "d \<le> x div 1250" by simp
qed

text \<open>
  Claim C2. For a numeric \<^verbatim>\<open>countdownDuration\<close> and a fixed start time,
  \<^verbatim>\<open>getCountdownTimeLeft\<close> is the duration minus the elapsed milliseconds divided by
  1250 and rounded down; it does not increase when the clock advances; and it is
  \<^verbatim>\<open><= 0\<close> exactly from 1250 ms per configured second onwards, that is after 1.25
  times the configured number of seconds.
\<close>

theorem getCountdownTimeLeft_scaling:
  assumes "get_prop (moduleOptions s) ''countdownDuration'' = JNum d"
    and "adsharecountdownstart s = Some start"
  shows "getCountdownTimeLeft (s\<lparr>clock := now\<rparr>) = Some (d - (now - start) div 1250)
     \<and> (now \<le> now' \<longrightarrow>
          the (getCountdownTimeLeft (s\<lparr>clock := now'\<rparr>))
            \<le> the (getCountdownTimeLeft (s\<lparr>clock := now\<rparr>)))
     \<and> (time_le0 (getCountdownTimeLeft (s\<lparr>clock := now\<rparr>)) \<longleftrightarrow> d * 1250 \<le> now - start)"
proof -
  have tl: "getCountdownTimeLeft (s\<lparr>clock := t\<rparr>) = Some (d - (t - start) div 1250)" for t
    using assms by (simp add: getCountdownTimeLeft_def)
  have mono: "now \<le> now' \<Longrightarrow> (now - start) div 1250 \<le> (now' - start) div 1250"
    by (rule zdiv_mono1) simp_all
  have zero: "(d - (now - start) div 1250 \<le> 0) = (d * 1250 \<le> now - start)"
    using le_div_1250 [of d "now - start"] by simp
  show ?thesis
    using mono zero by (simp add: tl time_le0_def)
qed


text \<open>
  The theorem for the default duration of 30: one unit is left 37499 ms after the
  start, none 37500 ms after it.
\<close>

theorem getCountdownTimeLeft_scaling_witness:
  "getCountdownTimeLeft
      ((startCountdownTimer (applyOptions None
          (loaded StorageAbsent None ''en-US'' 1000 (Some False) True True 0)))\<lparr>clock := 38499\<rparr>) = Some 1
   \<and> getCountdownTimeLeft
      ((startCountdownTimer (applyOptions None
          (loaded StorageAbsent None ''en-US'' 1000 (Some False) True True 0)))\<lparr>clock := 38500\<rparr>) = Some 0
   \<and> the (getCountdownTimeLeft
      ((startCountdownTimer (applyOptions None
          (loaded StorageAbsent None ''en-US'' 1000 (Some False) True True 0)))\<lparr>clock := 38500\<rparr>))
     \<le> the (getCountdownTimeLeft
      ((startCountdownTimer (applyOptions None
          (loaded StorageAbsent None ''en-US'' 1000 (Some False) True True 0)))\<lparr>clock := 38499\<rparr>))
   \<and> \<not> time_le0 (getCountdownTimeLeft
      ((startCountdownTimer (applyOptions None
          (loaded StorageAbsent None ''en-US'' 1000 (Some False) True True 0)))\<lparr>clock := 38499\<rparr>))
   \<and> time_le0 (getCountdownTimeLeft
      ((startCountdownTimer (applyOptions None
          (loaded StorageAbsent None ''en-US'' 1000 (Some False) True True 0)))\<lparr>clock := 38500\<rparr>))"
proof -
  let ?s = "startCountdownTimer (applyOptions None
          (loaded StorageAbsent None ''en-US'' 1000 (Some False) True True 0))"
  have d: "get_prop (moduleOptions ?s) ''countdownDuration'' = JNum 30"
    by code_simp
  have t: "adsharecountdownstart ?s = Some 1000"
    by code_simp
  from getCountdownTimeLeft_scaling [OF d t, of 38499 38500]
       getCountdownTimeLeft_scaling [OF d t, of 38500 38500]
  show ?thesis by (simp add: time_le0_def)
qed



text \<open>
  Claim C10. The configuration that \<^verbatim>\<open>applyOptions\<close> builds has no \<^verbatim>\<open>messages\<close>
  property. Without that property, when \<^verbatim>\<open>countdownTimer\<close> runs with time left and
  the document holds \<^verbatim>\<open>#adshare-countdown\<close>, the element of the banner variant, it
  throws a \<^verbatim>\<open>TypeError\<close> and schedules nothing.
\<close>

theorem countdownTimer_banner_throws:
  "moduleOptions (applyOptions opts s0) ''messages'' = None
   \<and> (moduleOptions s ''messages'' = None \<and> has_adshare_countdown s
        \<and> getCountdownTimeLeft s = Some t \<and> 0 < t \<longrightarrow>
      countdownTimer s = Throw TypeError s
      \<and> timers (state_of (countdownTimer s)) = timers s)"
  by (simp add: applyOptions_no_messages countdownTimer_def time_le0_def)


text \<open>
  The theorem in the state that \<^verbatim>\<open>displayAd\<close> leaves for \<^verbatim>\<open>content: 'banner'\<close>, 100 ms
  after the modal was shown.
\<close>

theorem countdownTimer_banner_throws_witness:
  "has_adshare_countdown
     ((state_of (displayAd (applyOptions (Some [''content'' \<mapsto> JStr ''banner''])
         (loaded StorageAbsent None ''en-US'' 1000 (Some False) True True 0))))\<lparr>clock := 1100\<rparr>)
   \<and> getCountdownTimeLeft
     ((state_of (displayAd (applyOptions (Some [''content'' \<mapsto> JStr ''banner''])
         (loaded StorageAbsent None ''en-US'' 1000 (Some False) True True 0))))\<lparr>clock := 1100\<rparr>)
       = Some 30
   \<and> countdownTimer
     ((state_of (displayAd (applyOptions (Some [''content'' \<mapsto> JStr ''banner''])
         (loaded StorageAbsent None ''en-US'' 1000 (Some False) True True 0))))\<lparr>clock := 1100\<rparr>)
       = Throw TypeError
     ((state_of (displayAd (applyOptions (Some [''content'' \<mapsto> JStr ''banner''])
         (loaded StorageAbsent None ''en-US'' 1000 (Some False) True True 0))))\<lparr>clock := 1100\<rparr>)"
proof -
  let ?u = "(state_of (displayAd (applyOptions (Some [''content'' \<mapsto> JStr ''banner''])
         (loaded StorageAbsent None ''en-US'' 1000 (Some False) True True 0))))\<lparr>clock := 1100\<rparr>"
  have h: "moduleOptions ?u ''messages'' = None \<and> has_adshare_countdown ?u
        \<and> getCountdownTimeLeft ?u = Some 30 \<and> (0::int) < 30"
    by code_simp
  from countdownTimer_banner_throws [where s = ?u and t = 30, THEN conjunct2, THEN mp, OF h] h
  show ?thesis by blast
qed

section \<open>Properties of teardown\<close>

lemma destroyVideoJsPlayer_fields [simp]:
  "playerInitialized (destroyVideoJsPlayer e s) = False"
  "player (destroyVideoJsPlayer e s) = False"
  "modal (destroyVideoJsPlayer e s) = modal s"
  "container (destroyVideoJsPlayer e s) = container s"
  "page_contentBox (destroyVideoJsPlayer e s) = page_contentBox s"
  "moduleOptions (destroyVideoJsPlayer e s) = moduleOptions s"
  "timers (destroyVideoJsPlayer e s) = timers s"
  by (simp_all add: destroyVideoJsPlayer_def Let_def)

lemma teardown_playerInitialized:
  "\<not> playerInitialized (state_of (closePopup s))"
  "\<not> playerInitialized s \<Longrightarrow> \<not> playerInitialized (state_of (modal_close s))"
proof (induction s and s rule: closePopup_modal_close.induct)
  case (1 s)
  show ?case
    using 1
    by (subst closePopup.simps)
       (auto simp: Let_def split: option.splits box.splits)
next
  case (2 s)
  show ?case
    using 2
    by (subst modal_close.simps)
       (auto simp: Let_def split: option.splits modal_handle.splits bool.splits)
qed

lemma closePopup_modal:
  "modal s \<noteq> None \<Longrightarrow>
     closePopup s =
       Normal ((state_of (modal_close (destroyVideoJsPlayer False s)))\<lparr>container := None, modal := None\<rparr>)"
  by (subst closePopup.simps) (simp add: Let_def)

lemma closePopup_no_host:
  "modal s = None \<Longrightarrow> container s = None \<Longrightarrow>
     closePopup s = Normal ((destroyVideoJsPlayer False s)\<lparr>container := None, modal := None\<rparr>)"
  by (subst closePopup.simps) (simp add: Let_def)

lemma closePopup_returns_null:
  assumes "closePopup s = Normal s'"
  shows "modal s' = None \<and> container s' = None \<and> \<not> playerInitialized s'"
proof -
  from teardown_playerInitialized(1) [of s] assms have "\<not> playerInitialized s'" by simp
  moreover from assms have "modal s' = None \<and> container s' = None"
    by (subst (asm) closePopup.simps)
       (auto simp: Let_def split: option.splits box.splits if_splits)
  ultimately show ?thesis by simp
qed

lemma modal_show_createModalWindow:
  "\<exists>s0. modal_show (createModalWindow v s) = Normal s0 \<and> modal s0 = Some (Modal v True)"
  by (simp add: modal_show_def createModalWindow_def Let_def hideCloseButton_def has_pico_close_def
        doc_contents_def startCountdownTimer_def setTimeout_def split: option.splits box.splits)

text \<open>
  Claim C4. Whenever \<^verbatim>\<open>closePopup\<close> returns, \<^verbatim>\<open>modal\<close> and \<^verbatim>\<open>container\<close> are null and
  \<^verbatim>\<open>playerInitialized\<close> is false. With a modal open, \<^verbatim>\<open>closePopup\<close> returns, and so does
  a second call right after it; in particular for the modal that
  \<^verbatim>\<open>createModalWindow\<close> and \<^verbatim>\<open>show()\<close> have just set up.
\<close>

theorem closePopup_teardown:
  "(closePopup s = Normal s' \<longrightarrow>
      modal s' = None \<and> container s' = None \<and> \<not> playerInitialized s')
   \<and> (modal s \<noteq> None \<longrightarrow>
        (\<exists>s1 s2. closePopup s = Normal s1 \<and> closePopup s1 = Normal s2))
   \<and> (\<exists>s0 s1 s2. modal_show (createModalWindow v s) = Normal s0
         \<and> closePopup s0 = Normal s1 \<and> closePopup s1 = Normal s2)"
proof (intro conjI impI)
  assume "closePopup s = Normal s'"
  then have "modal s' = None \<and> container s' = None \<and> \<not> playerInitialized s'"
    by (rule closePopup_returns_null)
  then show "modal s' = None" "container s' = None" "\<not> playerInitialized s'" by simp_all
next
  have twice: "\<exists>s1 s2. closePopup t = Normal s1 \<and> closePopup s1 = Normal s2" if "modal t \<noteq> None" for t
  proof -
    from that obtain s1 where a: "closePopup t = Normal s1"
      using closePopup_modal by blast
    then have "modal s1 = None" "container s1 = None"
      using closePopup_returns_null by blast+
    then have "\<exists>s2. closePopup s1 = Normal s2"
      using closePopup_no_host by blast
    with a show ?thesis by blast
  qed
  {
    assume "modal s \<noteq> None"
    then show "\<exists>s1 s2. closePopup s = Normal s1 \<and> closePopup s1 = Normal s2" by (rule twice)
  }
  obtain s0 where b: "modal_show (createModalWindow v s) = Normal s0" "modal s0 = Some (Modal v True)"
    using modal_show_createModalWindow by blast
  then have "modal s0 \<noteq> None" by simp
  from twice [OF this] b(1)
  show "\<exists>s0 s1 s2. modal_show (createModalWindow v s) = Normal s0
         \<and> closePopup s0 = Normal s1 \<and> closePopup s1 = Normal s2" by blast
qed


text \<open>
  The theorem for a modal created on the default configuration: it is open, two calls
  of \<^verbatim>\<open>closePopup\<close> in a row return, and the references are null afterwards.
\<close>

theorem closePopup_teardown_witness:
  "modal (state_of (modal_show (createModalWindow Taboola
      (applyOptions None (loaded StorageAbsent None ''en-US'' 0 (Some False) True True 0))))) \<noteq> None
   \<and> (\<exists>s1 s2.
        closePopup (state_of (modal_show (createModalWindow Taboola
          (applyOptions None (loaded StorageAbsent None ''en-US'' 0 (Some False) True True 0)))))
          = Normal s1
        \<and> closePopup s1 = Normal s2
        \<and> modal s2 = None \<and> container s2 = None \<and> \<not> playerInitialized s2)"
proof -
  let ?S = "state_of (modal_show (createModalWindow Taboola
      (applyOptions None (loaded StorageAbsent None ''en-US'' 0 (Some False) True True 0))))"
  have m: "modal ?S \<noteq> None" by code_simp
  with closePopup_teardown [where s = ?S] obtain s1 s2
    where a: "closePopup ?S = Normal s1" and b: "closePopup s1 = Normal s2" by blast
  from closePopup_teardown [where s = s1 and s' = s2] b
  have "modal s2 = None \<and> container s2 = None \<and> \<not> playerInitialized s2" by blast
  with m a b show ?thesis by blast
qed

subsection \<open>The guarded display functions keep the hosts exclusive\<close>

lemma closePopup_modal_None: "modal (state_of (closePopup s)) = None"
  by (subst closePopup.simps) (auto simp: Let_def split: option.splits box.splits)

lemma exclusive_closePopup: "hosts_exclusive (state_of (closePopup s))"
  by (simp add: hosts_exclusive_def closePopup_modal_None)

lemma exclusive_countdownTimer:
  "hosts_exclusive s \<Longrightarrow> hosts_exclusive (state_of (countdownTimer s))"
  using exclusive_closePopup [of s]
  by (auto simp: countdownTimer_def showCloseButton_def setTimeout_def Let_def
        hosts_exclusive_def split: option.splits)

lemma exclusive_recheck_countdown:
  "hosts_exclusive s \<Longrightarrow> hosts_exclusive (state_of (recheck_countdown s))"
  by (simp add: recheck_countdown_def exclusive_countdownTimer)

lemma exclusive_and_then:
  assumes "hosts_exclusive (state_of x)"
    and "\<And>t. hosts_exclusive t \<Longrightarrow> hosts_exclusive (state_of (f t))"
  shows "hosts_exclusive (state_of (and_then x f))"
  using assms by (cases x) simp_all

lemma exclusive_set_modal_content:
  "hosts_exclusive s \<Longrightarrow> hosts_exclusive (state_of (set_modal_content v s))"
  by (auto simp: set_modal_content_def hosts_exclusive_def
        split: option.splits box.splits modal_handle.splits bool.splits)

lemma exclusive_set_container_content:
  assumes "hosts_exclusive s"
  shows "hosts_exclusive (state_of (set_container_content v s))"
proof (cases "container s")
  case None
  with assms show ?thesis by (simp add: set_container_content_def)
next
  case (Some b)
  obtain k att w c where b: "b = Box k att w c" by (cases b)
  from assms Some have "modal s = None" by (simp add: hosts_exclusive_def)
  then have "hosts_exclusive (s\<lparr>container := Some (Box k att v (button_after_update c))\<rparr>)"
    by (simp add: hosts_exclusive_def)
  then show ?thesis
    using Some b by (simp add: set_container_content_def exclusive_recheck_countdown)
qed

lemma exclusive_create_host:
  assumes "modal s = None" and "container s = None"
  shows "hosts_exclusive (state_of (create_host v s))"
  using assms
  by (auto simp: create_host_def createContainer_def modal_show_def createModalWindow_def
        hideCloseButton_def startCountdownTimer_def setTimeout_def Let_def hosts_exclusive_def)

lemma exclusive_show:
  assumes "hosts_exclusive s"
  shows "hosts_exclusive (state_of
           (if modal s \<noteq> None then set_modal_content v s
            else if container s \<noteq> None then set_container_content v s
            else create_host v s))"
  using assms
  by (simp add: exclusive_set_modal_content exclusive_set_container_content exclusive_create_host)

lemma exclusive_setTimeout [simp]:
  "hosts_exclusive (setTimeout cb d s) = hosts_exclusive s"
  by (simp add: hosts_exclusive_def setTimeout_def)

lemma hosts_exclusive_display:
  assumes "hosts_exclusive s"
  shows "hosts_exclusive (state_of (displayBannerAd s))"
    and "hosts_exclusive (state_of (displayContentAd s))"
    and "hosts_exclusive (state_of (displayContentAdV2 s))"
    and "hosts_exclusive (state_of (displayTalooba s))"
    and "hosts_exclusive (state_of (displayTalooba2ndCall s))"
    and "hosts_exclusive (state_of (displayVideoBanner s))"
proof -
  show "hosts_exclusive (state_of (displayBannerAd s))"
    unfolding displayBannerAd_def
    by (rule exclusive_and_then) (rule exclusive_show [OF assms], simp)
  show "hosts_exclusive (state_of (displayContentAd s))"
    unfolding displayContentAd_def
    by (rule exclusive_and_then) (rule exclusive_show [OF assms], simp)
  show "hosts_exclusive (state_of (displayContentAdV2 s))"
    unfolding displayContentAdV2_def by (rule exclusive_show [OF assms])
  show "hosts_exclusive (state_of (displayTalooba s))"
    unfolding displayTalooba_def
    by (rule exclusive_and_then) (rule exclusive_show [OF assms], simp)
  show "hosts_exclusive (state_of (displayTalooba2ndCall s))"
    unfolding displayTalooba2ndCall_def
    by (rule exclusive_and_then) (rule exclusive_show [OF assms], simp)
  have "hosts_exclusive (s\<lparr>displaysFallbackAd := False\<rparr>)"
    using assms by (simp add: hosts_exclusive_def)
  from exclusive_show [OF this, of VideoBanner]
  show "hosts_exclusive (state_of (displayVideoBanner s))"
    unfolding displayVideoBanner_def Let_def
    by (intro exclusive_and_then) simp_all
qed

lemma hosts_exclusive_display_recheck:
  assumes "hosts_exclusive s"
  shows "hosts_exclusive (state_of (displayContentIframe s))"
    and "hosts_exclusive (state_of (displayContentAdFunnel s))"
proof -
  have m: "hosts_exclusive (state_of (and_then (set_modal_content v s) recheck_countdown))" for v
    by (rule exclusive_and_then)
       (simp_all add: exclusive_set_modal_content exclusive_recheck_countdown assms)
  show "hosts_exclusive (state_of (displayContentIframe s))"
    using m [of ContentIframe] assms
    by (simp add: displayContentIframe_def exclusive_set_container_content exclusive_create_host)
  have c: "hosts_exclusive (state_of (create404Container v s))" if "modal s = None" for v
    using that by (simp add: create404Container_def hosts_exclusive_def)
  have n: "hosts_exclusive (state_of (and_then (createContainer ContentAdFunnel s)
                   (\<lambda>s1. Normal (startCountdownTimer s1))))" if "modal s = None"
    using that
    by (auto simp: createContainer_def startCountdownTimer_def setTimeout_def hosts_exclusive_def)
  have w: "hosts_exclusive (state_of (modal_show (createModalWindow ContentAdFunnel s)))"
    if "container s = None"
    using that
    by (auto simp: modal_show_def createModalWindow_def hideCloseButton_def
          startCountdownTimer_def setTimeout_def Let_def hosts_exclusive_def)
  show "hosts_exclusive (state_of (displayContentAdFunnel s))"
    using m [of ContentAdFunnel] assms c n w
    by (simp add: displayContentAdFunnel_def exclusive_set_container_content)
qed

lemma hosts_exclusive_displayVideoAd:
  assumes "hosts_exclusive s"
  shows "hosts_exclusive (state_of (displayVideoAd s))"
proof -
  let ?s0 = "s\<lparr>displaysFallbackAd := False\<rparr>"
  have e0: "hosts_exclusive ?s0"
    using assms by (simp add: hosts_exclusive_def)
  have g: "hosts_exclusive (state_of (getVideoElementHTML t))" if "hosts_exclusive t" for t
    using that by (simp add: getVideoElementHTML_def)
  have d: "hosts_exclusive (destroyVideoJsPlayer False ?s0)"
    using e0 by (simp add: hosts_exclusive_def)
  have 1: "hosts_exclusive (state_of (and_then (getVideoElementHTML (destroyVideoJsPlayer False ?s0))
                   (set_modal_content Video)))"
    by (rule exclusive_and_then) (simp_all add: g d exclusive_set_modal_content)
  have 2: "hosts_exclusive (state_of (and_then (getVideoElementHTML ?s0) (set_container_content Video)))"
    by (rule exclusive_and_then) (simp_all add: g e0 exclusive_set_container_content)
  have 3: "hosts_exclusive (state_of (and_then (getVideoElementHTML ?s0) (create_host Video)))"
    if "modal s = None" "container s = None"
    using that
    by (auto simp: getVideoElementHTML_def create_host_def createContainer_def modal_show_def
          createModalWindow_def hideCloseButton_def startCountdownTimer_def setTimeout_def
          Let_def hosts_exclusive_def)
  show ?thesis
    unfolding displayVideoAd_def Let_def
    by (rule exclusive_and_then) (use 1 2 3 in auto)
qed

text \<open>
  Claim C3 fails on the code. A \<^verbatim>\<open>taboola\<close> message opens the modal on a page that
  carries the 404 marker; \<^verbatim>\<open>displayAd\<close> then calls \<^verbatim>\<open>displayContent404Iframe\<close>, which
  makes a box without looking at \<^verbatim>\<open>modal\<close> or \<^verbatim>\<open>container\<close>, and both references
  are non-null.
\<close>

theorem displayAd_404_both_hosts:
  "modal (state_of (receiveMessage ''taboola''
       (loaded StorageAbsent None ''en-US'' 0 (Some True) True True 2))) = Some (Modal Taboola True)
   \<and> container (state_of (receiveMessage ''taboola''
       (loaded StorageAbsent None ''en-US'' 0 (Some True) True True 2))) = None
   \<and> modal (state_of (displayAd (applyOptions (Some Map.empty)
       (state_of (receiveMessage ''taboola''
          (loaded StorageAbsent None ''en-US'' 0 (Some True) True True 2))))))
       = Some (Modal Taboola True)
   \<and> container (state_of (displayAd (applyOptions (Some Map.empty)
       (state_of (receiveMessage ''taboola''
          (loaded StorageAbsent None ''en-US'' 0 (Some True) True True 2))))))
       = Some (Box True True Content404Iframe Beside)"
  by code_simp

section \<open>Properties of the dispatcher\<close>

lemma getCountdownTimeLeft_hosts [simp]:
  "getCountdownTimeLeft (s\<lparr>modal := m\<rparr>) = getCountdownTimeLeft s"
  "getCountdownTimeLeft (s\<lparr>container := c\<rparr>) = getCountdownTimeLeft s"
  by (simp_all add: getCountdownTimeLeft_def split: option.splits)









section \<open>Properties of the video fallback\<close>

lemma leaves_refl [simp]: "leaves A s s"
  by (simp add: leaves_def)


lemma leaves_mono: "leaves A s t \<Longrightarrow> A \<subseteq> B \<Longrightarrow> leaves B s t"
  by (auto simp: leaves_def)
























end
